theory Spec2Isabelle
  imports Complex_Main "HOL-Library.Word"
begin

text \<open>
  A model of the synchronisation engine of sqlite-cloud-backup: \<^verbatim>\<open>ChecksumUtil\<close>,
  \<^verbatim>\<open>DatabaseManager\<close> and \<^verbatim>\<open>SyncEngine\<close>, run against the in-memory storage transport of
  the engine's unit tests. Every operation is a function on an explicit world (the local
  files, the remote store, the clock); a thrown error is a value. The failures in the model
  are the ones the code can meet on these states: a missing local file (\<^verbatim>\<open>ENOENT\<close>), a
  missing remote blob, a checksum mismatch. Network faults and other disk faults are not
  modelled.
\<close>

section \<open>Data model\<close>

text \<open>
  The types of \<^verbatim>\<open>src/types/index.ts\<close>. A \<^verbatim>\<open>Buffer\<close> is a list of bytes, a JavaScript
  \<^verbatim>\<open>number\<close> that holds a time in milliseconds is a \<open>real\<close> (\<^verbatim>\<open>Date.now()\<close> is
  integral, \<^verbatim>\<open>mtimeMs\<close> may have a fraction; the code only compares and subtracts them),
  a length or count is a \<open>nat\<close>.
\<close>

type_synonym byte = "8 word"
type_synonym buffer = "byte list"

text \<open>
  A thrown JavaScript exception as a value: \<open>Error msg\<close> is \<^verbatim>\<open>new Error(msg)\<close>,
  \<open>ErrnoException code\<close> is the system error that \<^verbatim>\<open>fs\<close> raises (only its code is kept).
\<close>

datatype error = Error string | ErrnoException string

datatype SyncType = push | pull | bidirectional

record SyncResult =
  success :: bool
  type :: SyncType
  timestamp :: real
  localChecksum :: string
  cloudChecksum :: string
  bytesTransferred :: nat
  duration :: real
  error :: "error option"

record SyncMetadata =
  dbName :: string
  lastSyncTimestamp :: real
  lastSyncType :: SyncType
  checksum :: string
  version :: nat

record ProviderMetadata =
  checksum :: string
  modifiedAt :: real
  size_field :: nat

record LocalMetadata =
  lastSyncTimestamp :: real
  lastSyncChecksum :: string

text \<open>
  \<^verbatim>\<open>Partial<LocalMetadata>\<close>: each field is present or absent.
\<close>

record PartialLocalMetadata =
  lastSyncTimestamp_opt :: "real option"
  lastSyncChecksum_opt :: "string option"

section \<open>ChecksumUtil\<close>

text \<open>
  \<^verbatim>\<open>crypto.createHash('sha256')\<close> is the platform's library, not code of this repository.
  Its \<^verbatim>\<open>Hash\<close> object is modelled by what it has absorbed so far: \<^verbatim>\<open>update\<close> appends the
  data, \<^verbatim>\<open>digest('hex')\<close> applies the digest function to everything absorbed. The digest
  function itself (SHA-256 rendered in hexadecimal) is the parameter \<open>H\<close> of every
  definition that hashes, so each result below holds for any digest function.
\<close>

record Hash =
  absorbed :: buffer

definition createHash :: Hash where
  "createHash = \<lparr>absorbed = []\<rparr>"

definition Hash_update :: "Hash \<Rightarrow> buffer \<Rightarrow> Hash" where
  "Hash_update h d = h\<lparr>absorbed := absorbed h @ d\<rparr>"

definition Hash_digest :: "(buffer \<Rightarrow> string) \<Rightarrow> Hash \<Rightarrow> string" where
  "Hash_digest H h = H (absorbed h)"

text \<open>
  What \<^verbatim>\<open>fs.createReadStream\<close> delivers to its listeners: any number of \<^verbatim>\<open>'data'\<close>
  events, closed by one \<^verbatim>\<open>'end'\<close> or one \<^verbatim>\<open>'error'\<close>.
\<close>

datatype ReadStream = OnData buffer ReadStream | OnEnd | OnError error

text \<open>The events of a stream that delivers the given chunks and then ends.\<close>

fun emit :: "buffer list \<Rightarrow> ReadStream" where
  "emit [] = OnEnd"
| "emit (c # cs) = OnData c (emit cs)"

text \<open>
  The three listeners of \<^verbatim>\<open>calculateFileChecksum\<close>: \<^verbatim>\<open>'data'\<close> updates the hash,
  \<^verbatim>\<open>'end'\<close> resolves the promise with the digest, \<^verbatim>\<open>'error'\<close> rejects it.
\<close>

fun listen :: "(buffer \<Rightarrow> string) \<Rightarrow> Hash \<Rightarrow> ReadStream \<Rightarrow> error + string" where
  "listen H hash (OnData d s) = listen H (Hash_update hash d) s"
| "listen H hash OnEnd = Inr (Hash_digest H hash)"
| "listen H hash (OnError e) = Inl e"

definition calculateFileChecksum :: "(buffer \<Rightarrow> string) \<Rightarrow> ReadStream \<Rightarrow> error + string" where
  "calculateFileChecksum H stream = listen H createHash stream"

definition calculateBufferChecksum :: "(buffer \<Rightarrow> string) \<Rightarrow> buffer \<Rightarrow> string" where
  "calculateBufferChecksum H buffer = Hash_digest H (Hash_update createHash buffer)"

definition verifyChecksum :: "(buffer \<Rightarrow> string) \<Rightarrow> ReadStream \<Rightarrow> string \<Rightarrow> error + bool" where
  "verifyChecksum H stream expectedChecksum =
     (case calculateFileChecksum H stream of
        Inl e \<Rightarrow> Inl e
      | Inr actualChecksum \<Rightarrow> Inr (actualChecksum = expectedChecksum))"

text \<open>
  A digest for concrete examples: two hexadecimal digits for every byte. It stands in for
  SHA-256 only where a closed term needs some digest function.
\<close>

definition hexDigit :: "nat \<Rightarrow> char" where
  "hexDigit n = ''0123456789abcdef'' ! (n mod 16)"

definition hexDigest :: "buffer \<Rightarrow> string" where
  "hexDigest bs = concat (map (\<lambda>b. [hexDigit (unat b div 16), hexDigit (unat b)]) bs)"

section \<open>The local files, the transport and the clock\<close>

text \<open>
  A local file: its bytes and the modification time that \<^verbatim>\<open>stat\<close> reports.
\<close>

record localFile =
  content :: buffer
  mtimeMs :: real

text \<open>
  A call of the engine on the storage transport (\<^verbatim>\<open>BaseProvider\<close>), recorded so that
  statements can say which transport operations an execution invoked.
\<close>

datatype call =
    UploadFile string buffer
  | DownloadFile string
  | FileExists string
  | GetMetadata string
  | UpdateMetadata SyncMetadata
  | DeleteFile string

text \<open>
  Everything the engine reads or writes.
  \<^item> \<open>dbFile\<close>, \<open>tmpFile\<close>, \<open>metadataFile\<close>: the files at \<^verbatim>\<open>dbPath\<close>, at \<^verbatim>\<open>dbPath + '.tmp'\<close>
    and at \<^verbatim>\<open>metadataPath\<close> (\<open>None\<close>: no such file). The metadata file holds the JSON text
    of a \<open>LocalMetadata\<close>; \<^verbatim>\<open>JSON.parse\<close> after \<^verbatim>\<open>JSON.stringify\<close> gives the record back,
    so the file is modelled by the record it holds.
  \<^item> \<open>dbOpen\<close>: whether \<^verbatim>\<open>DatabaseManager.db\<close> holds a connection.
  \<^item> \<open>files\<close>, \<open>metadata\<close>: the remote store, as the in-memory \<^verbatim>\<open>MockProvider\<close> of the
    sync-engine unit tests keeps it (\<^verbatim>\<open>Map<string, Buffer>\<close> and
    \<^verbatim>\<open>SyncMetadata | null\<close>). \<open>calls\<close> is the record of transport calls made so far.
  \<^item> \<open>clock\<close>, \<open>ticks\<close>: the system clock; its \<open>n\<close>-th reading is \<open>clock n\<close>, and
    \<open>ticks\<close> readings have been taken.
  Logger calls only print and are left out.
\<close>

record world =
  dbFile :: "localFile option"
  tmpFile :: "localFile option"
  metadataFile :: "LocalMetadata option"
  dbOpen :: bool
  files :: "string \<rightharpoonup> buffer"
  metadata :: "SyncMetadata option"
  calls :: "call list"
  clock :: "nat \<Rightarrow> real"
  ticks :: nat

definition Date_now :: "world \<Rightarrow> real \<times> world" where
  "Date_now w = (clock w (ticks w), w\<lparr>ticks := Suc (ticks w)\<rparr>)"

subsection \<open>MockProvider, the in-memory transport\<close>

definition uploadFile :: "string \<Rightarrow> buffer \<Rightarrow> world \<Rightarrow> world" where
  "uploadFile fileName buffer w =
     w\<lparr>files := (files w)(fileName \<mapsto> buffer),
       calls := calls w @ [UploadFile fileName buffer]\<rparr>"

definition downloadFile :: "string \<Rightarrow> world \<Rightarrow> (error + buffer) \<times> world" where
  "downloadFile fileName w =
     (case files w fileName of
        None \<Rightarrow> Inl (Error (''File not found: '' @ fileName))
      | Some file \<Rightarrow> Inr file,
      w\<lparr>calls := calls w @ [DownloadFile fileName]\<rparr>)"

definition fileExists :: "string \<Rightarrow> world \<Rightarrow> bool \<times> world" where
  "fileExists fileName w =
     (files w fileName \<noteq> None, w\<lparr>calls := calls w @ [FileExists fileName]\<rparr>)"

definition getMetadata :: "string \<Rightarrow> world \<Rightarrow> ProviderMetadata option \<times> world" where
  "getMetadata fileName w =
     (case metadata w of
        None \<Rightarrow> None
      | Some m \<Rightarrow> Some \<lparr>checksum = SyncMetadata.checksum m,
                        modifiedAt = SyncMetadata.lastSyncTimestamp m,
                        size_field = 0\<rparr>,
      w\<lparr>calls := calls w @ [GetMetadata fileName]\<rparr>)"

definition updateMetadata :: "SyncMetadata \<Rightarrow> world \<Rightarrow> world" where
  "updateMetadata m w =
     w\<lparr>metadata := Some m, calls := calls w @ [UpdateMetadata m]\<rparr>"

definition deleteFile :: "string \<Rightarrow> world \<Rightarrow> world" where
  "deleteFile fileName w =
     w\<lparr>files := (files w)(fileName := None),
       calls := calls w @ [DeleteFile fileName]\<rparr>"

section \<open>DatabaseManager\<close>

definition close :: "world \<Rightarrow> world" where
  "close w = (if dbOpen w then w\<lparr>dbOpen := False\<rparr> else w)"

text \<open>\<^verbatim>\<open>fs.promises.readFile(dbPath)\<close> fails with \<^verbatim>\<open>ENOENT\<close> when there is no file.\<close>

definition getBuffer :: "world \<Rightarrow> (error + buffer) \<times> world" where
  "getBuffer w =
     (let w1 = close w in
      (case dbFile w1 of
         None \<Rightarrow> Inl (ErrnoException ''ENOENT'')
       | Some f \<Rightarrow> Inr (content f),
       w1))"

text \<open>
  \<^verbatim>\<open>fs.createReadStream(dbPath)\<close>: the file's bytes in chunks of at most
  \<open>highWaterMark\<close> bytes (64 KiB by default), or an \<^verbatim>\<open>'error'\<close> when the file cannot be
  opened.
\<close>

definition highWaterMark :: nat where
  "highWaterMark = 65536"

function chunksOf :: "nat \<Rightarrow> 'a list \<Rightarrow> 'a list list" where
  "chunksOf n xs =
     (if n = 0 \<or> xs = [] then [] else take n xs # chunksOf n (drop n xs))"
  by pat_completeness auto
termination
  by (relation "measure (\<lambda>(n, xs). length xs)") auto

declare chunksOf.simps [simp del]

definition createReadStream :: "localFile option \<Rightarrow> ReadStream" where
  "createReadStream fo =
     (case fo of
        None \<Rightarrow> OnError (ErrnoException ''ENOENT'')
      | Some f \<Rightarrow> emit (chunksOf highWaterMark (content f)))"

definition getChecksum :: "(buffer \<Rightarrow> string) \<Rightarrow> world \<Rightarrow> (error + string) \<times> world" where
  "getChecksum H w =
     (let w1 = close w in
      (calculateFileChecksum H (createReadStream (dbFile w1)), w1))"

text \<open>
  \<^verbatim>\<open>replaceWithBuffer\<close>: write the bytes to the temporary file (the file system stamps it
  with the current clock reading), then rename it over the database file.
\<close>

definition replaceWithBuffer :: "buffer \<Rightarrow> world \<Rightarrow> world" where
  "replaceWithBuffer buffer w =
     (let w1 = close w;
          (t, w2) = Date_now w1;
          w3 = w2\<lparr>tmpFile := Some \<lparr>content = buffer, mtimeMs = t\<rparr>\<rparr>
      in w3\<lparr>dbFile := tmpFile w3, tmpFile := None\<rparr>)"

definition getLocalMetadata :: "world \<Rightarrow> LocalMetadata" where
  "getLocalMetadata w =
     (case metadataFile w of
        None \<Rightarrow> \<lparr>lastSyncTimestamp = 0, lastSyncChecksum = ''''\<rparr>
      | Some m \<Rightarrow> m)"

text \<open>The object spread \<^verbatim>\<open>{ ...current, ...metadata }\<close> on the two fields.\<close>

definition spread :: "LocalMetadata \<Rightarrow> PartialLocalMetadata \<Rightarrow> LocalMetadata" where
  "spread current p =
     \<lparr>lastSyncTimestamp =
        (case lastSyncTimestamp_opt p of None \<Rightarrow> lastSyncTimestamp current | Some t \<Rightarrow> t),
      lastSyncChecksum =
        (case lastSyncChecksum_opt p of None \<Rightarrow> lastSyncChecksum current | Some c \<Rightarrow> c)\<rparr>"

definition updateLocalMetadata :: "PartialLocalMetadata \<Rightarrow> world \<Rightarrow> world" where
  "updateLocalMetadata p w =
     (let current = getLocalMetadata w;
          updated = spread current p
      in w\<lparr>metadataFile := Some updated\<rparr>)"

definition getModifiedTime :: "world \<Rightarrow> (error + real) \<times> world" where
  "getModifiedTime w =
     (case dbFile w of
        None \<Rightarrow> Inl (ErrnoException ''ENOENT'')
      | Some f \<Rightarrow> Inr (mtimeMs f),
      w)"

section \<open>SyncEngine\<close>

text \<open>
  Each operation takes the world and returns what the promise settles with, \<open>Inl\<close> the
  thrown error or \<open>Inr\<close> the \<open>SyncResult\<close>, and the world it leaves. The
  \<^verbatim>\<open>catch\<close> blocks log and rethrow, so an error of a step is the error of the operation.
\<close>

definition pushToCloud :: "(buffer \<Rightarrow> string) \<Rightarrow> world \<Rightarrow> (error + SyncResult) \<times> world" where
  "pushToCloud H w =
     (let (startTime, w1) = Date_now w in
      case getBuffer w1 of
        (Inl e, w2) \<Rightarrow> (Inl e, w2)
      | (Inr buffer, w2) \<Rightarrow>
          (let checksum' = calculateBufferChecksum H buffer;
               w3 = uploadFile ''current.db'' buffer w2;
               (now, w4) = Date_now w3;
               metadata' = \<lparr>dbName = ''current'',
                            SyncMetadata.lastSyncTimestamp = now,
                            lastSyncType = push,
                            SyncMetadata.checksum = checksum',
                            version = 1\<rparr>;
               w5 = updateMetadata metadata' w4;
               w6 = updateLocalMetadata
                      \<lparr>lastSyncTimestamp_opt = Some (SyncMetadata.lastSyncTimestamp metadata'),
                       lastSyncChecksum_opt = Some checksum'\<rparr> w5;
               (t1, w7) = Date_now w6;
               (t2, w8) = Date_now w7;
               result = \<lparr>success = True,
                         type = push,
                         timestamp = t1,
                         localChecksum = checksum',
                         cloudChecksum = checksum',
                         bytesTransferred = length buffer,
                         duration = t2 - startTime,
                         error = None\<rparr>
           in (Inr result, w8)))"

definition pullFromCloud :: "(buffer \<Rightarrow> string) \<Rightarrow> world \<Rightarrow> (error + SyncResult) \<times> world" where
  "pullFromCloud H w =
     (let (startTime, w1) = Date_now w;
          (exists, w2) = fileExists ''current.db'' w1
      in if \<not> exists then (Inl (Error ''No cloud version found''), w2)
         else
           case downloadFile ''current.db'' w2 of
             (Inl e, w3) \<Rightarrow> (Inl e, w3)
           | (Inr buffer, w3) \<Rightarrow>
               (let checksum' = calculateBufferChecksum H buffer;
                    (cloudMetadata, w4) = getMetadata ''current.db'' w3
                in if (case cloudMetadata of
                         None \<Rightarrow> False
                       | Some m \<Rightarrow> ProviderMetadata.checksum m \<noteq> checksum')
                   then (Inl (Error ''Checksum mismatch - data corruption detected''), w4)
                   else
                     (let w5 = replaceWithBuffer buffer w4;
                          (now, w6) = Date_now w5;
                          w7 = updateLocalMetadata
                                 \<lparr>lastSyncTimestamp_opt = Some now,
                                  lastSyncChecksum_opt = Some checksum'\<rparr> w6;
                          (t1, w8) = Date_now w7;
                          (t2, w9) = Date_now w8;
                          result = \<lparr>success = True,
                                    type = pull,
                                    timestamp = t1,
                                    localChecksum = checksum',
                                    cloudChecksum = checksum',
                                    bytesTransferred = length buffer,
                                    duration = t2 - startTime,
                                    error = None\<rparr>
                      in (Inr result, w9))))"

definition sync :: "(buffer \<Rightarrow> string) \<Rightarrow> world \<Rightarrow> (error + SyncResult) \<times> world" where
  "sync H w =
     (let (startTime, w1) = Date_now w;
          (cloudExists, w2) = fileExists ''current.db'' w1
      in if \<not> cloudExists then pushToCloud H w2
         else
           case getChecksum H w2 of
             (Inl e, w3) \<Rightarrow> (Inl e, w3)
           | (Inr localChecksum', w3) \<Rightarrow>
               (let (cloudMetadata, w4) = getMetadata ''current.db'' w3
                in case cloudMetadata of
                     None \<Rightarrow> pushToCloud H w4
                   | Some cm \<Rightarrow>
                       if localChecksum' = ProviderMetadata.checksum cm
                       then
                         (let (t1, w5) = Date_now w4;
                              (t2, w6) = Date_now w5;
                              result = \<lparr>success = True,
                                        type = bidirectional,
                                        timestamp = t1,
                                        localChecksum = localChecksum',
                                        cloudChecksum = ProviderMetadata.checksum cm,
                                        bytesTransferred = 0,
                                        duration = t2 - startTime,
                                        error = None\<rparr>
                          in (Inr result, w6))
                       else
                         case getModifiedTime w4 of
                           (Inl e, w5) \<Rightarrow> (Inl e, w5)
                         | (Inr localModified, w5) \<Rightarrow>
                             if localModified > modifiedAt cm
                             then pushToCloud H w5
                             else pullFromCloud H w5))"

section \<open>Auxiliary notions\<close>

text \<open>
  The state that \<open>sync\<close> recognises as synchronised: a remote blob and a remote record
  exist, and the record's checksum is the digest of the local file.
\<close>

definition inSync :: "(buffer \<Rightarrow> string) \<Rightarrow> world \<Rightarrow> bool" where
  "inSync H w =
     (case (files w ''current.db'', dbFile w, metadata w) of
        (Some b, Some f, Some m) \<Rightarrow> H (content f) = SyncMetadata.checksum m
      | _ \<Rightarrow> False)"

text \<open>The transport operations that do not write.\<close>

fun readOnly :: "call \<Rightarrow> bool" where
  "readOnly (FileExists n) = True"
| "readOnly (DownloadFile n) = True"
| "readOnly (GetMetadata n) = True"
| "readOnly c = False"

text \<open>
  Concrete states for the examples. \<open>localOnly\<close>: a local file holding the two bytes of
  \<^verbatim>\<open>"v1"\<close>, nothing remote. \<open>remoteNewer\<close>: in addition a remote blob \<^verbatim>\<open>"v2"\<close> whose
  record carries the blob's digest and a later timestamp. \<open>remoteCorrupt\<close>: the same,
  but the record's checksum is not the digest of the blob.
\<close>

definition v1 :: buffer where
  "v1 = [0x76, 0x31]"

definition v2 :: buffer where
  "v2 = [0x76, 0x32]"

definition localOnly :: world where
  "localOnly =
     \<lparr>dbFile = Some \<lparr>content = v1, mtimeMs = 100\<rparr>,
      tmpFile = None,
      metadataFile = None,
      dbOpen = False,
      files = Map.empty,
      metadata = None,
      calls = [],
      clock = (\<lambda>n. 1000 + real n),
      ticks = 0\<rparr>"

definition remoteNewer :: world where
  "remoteNewer =
     localOnly\<lparr>files := [''current.db'' \<mapsto> v2],
               metadata := Some \<lparr>dbName = ''current'',
                                  SyncMetadata.lastSyncTimestamp = 200,
                                  lastSyncType = push,
                                  SyncMetadata.checksum = ''7632'',
                                  version = 1\<rparr>\<rparr>"

definition remoteCorrupt :: world where
  "remoteCorrupt =
     localOnly\<lparr>files := [''current.db'' \<mapsto> v2],
               metadata := Some \<lparr>dbName = ''current'',
                                  SyncMetadata.lastSyncTimestamp = 200,
                                  lastSyncType = push,
                                  SyncMetadata.checksum = ''bad'',
                                  version = 1\<rparr>\<rparr>"

section \<open>Facts about ChecksumUtil and DatabaseManager\<close>

lemma listen_emit:
  "listen H hash (emit cs) = Inr (H (absorbed hash @ concat cs))"
  by (induction cs arbitrary: hash) (simp_all add: Hash_update_def Hash_digest_def)

lemma calculateBufferChecksum_eq: "calculateBufferChecksum H buffer = H buffer"
  by (simp add: calculateBufferChecksum_def Hash_digest_def Hash_update_def createHash_def)

lemma close_eq: "close w = w\<lparr>dbOpen := False\<rparr>"
  by (simp add: close_def)

lemma concat_chunksOf: "0 < n \<Longrightarrow> concat (chunksOf n xs) = xs"
proof (induction n xs rule: chunksOf.induct)
  case (1 n xs)
  show ?case
  proof (cases "xs = []")
    case True
    then show ?thesis by (simp add: chunksOf.simps [of n "[]"])
  next
    case False
    with "1" have "concat (chunksOf n (drop n xs)) = drop n xs" by simp
    with False "1.prems" show ?thesis by (simp add: chunksOf.simps [of n xs])
  qed
qed

lemma getChecksum_eq:
  "getChecksum H w =
     (case dbFile w of
        None \<Rightarrow> Inl (ErrnoException ''ENOENT'')
      | Some f \<Rightarrow> Inr (H (content f)),
      w\<lparr>dbOpen := False\<rparr>)"
  by (simp add: getChecksum_def close_eq createReadStream_def calculateFileChecksum_def
      listen_emit concat_chunksOf highWaterMark_def createHash_def split: option.split)

section \<open>File digest and buffer digest\<close>

text \<open>
  C7. For every byte sequence \<open>B\<close> and every way of cutting \<open>B\<close> into chunks, the digest
  that \<open>calculateFileChecksum\<close> computes incrementally over a stream delivering those
  chunks equals the one-shot \<open>calculateBufferChecksum\<close> of \<open>B\<close>; so does the digest over
  the stream that \<open>createReadStream\<close> opens on a file holding exactly \<open>B\<close>; and
  \<open>calculateBufferChecksum\<close> of \<open>B\<close> has one value however often it is computed.
\<close>

theorem checksum_file_equals_buffer:
  "(concat chunks = B \<longrightarrow>
      calculateFileChecksum H (emit chunks) = Inr (calculateBufferChecksum H B))
   \<and> calculateFileChecksum H (createReadStream (Some \<lparr>content = B, mtimeMs = t\<rparr>))
       = Inr (calculateBufferChecksum H B)
   \<and> (\<forall>d1 d2. d1 = calculateBufferChecksum H B \<longrightarrow> d2 = calculateBufferChecksum H B
         \<longrightarrow> d1 = d2)"
proof (intro conjI impI allI)
  assume "concat chunks = B"
  moreover have "listen H createHash (emit chunks)
      = Inr (H (absorbed createHash @ concat chunks))"
    by (rule listen_emit)
  ultimately show "calculateFileChecksum H (emit chunks) = Inr (calculateBufferChecksum H B)"
    by (simp add: calculateFileChecksum_def calculateBufferChecksum_eq createHash_def)
next
  have "concat (chunksOf highWaterMark B) = B"
    by (rule concat_chunksOf) (simp add: highWaterMark_def)
  then show "calculateFileChecksum H (createReadStream (Some \<lparr>content = B, mtimeMs = t\<rparr>))
      = Inr (calculateBufferChecksum H B)"
    by (simp add: calculateFileChecksum_def createReadStream_def listen_emit
        calculateBufferChecksum_eq createHash_def)
next
  fix d1 d2 :: string
  assume "d1 = calculateBufferChecksum H B" and "d2 = calculateBufferChecksum H B"
  then show "d1 = d2" by simp
qed

theorem checksum_file_equals_buffer_witness:
  "concat [[1, 2], [], [3 :: byte]] = [1, 2, 3]
   \<and> calculateFileChecksum hexDigest (emit [[1, 2], [], [3]]) = Inr ''010203''
   \<and> calculateFileChecksum hexDigest (createReadStream (Some \<lparr>content = [1, 2, 3], mtimeMs = 0\<rparr>))
       = Inr ''010203''
   \<and> calculateBufferChecksum hexDigest [1, 2, 3] = ''010203''"
proof -
  have c: "concat [[1, 2], [], [3 :: byte]] = [1, 2, 3]" by simp
  have d: "calculateBufferChecksum hexDigest [1, 2, 3] = ''010203''"
    by (simp add: calculateBufferChecksum_def Hash_digest_def Hash_update_def createHash_def
        hexDigest_def hexDigit_def)
  show ?thesis
    using checksum_file_equals_buffer [of "[[1, 2], [], [3]]" "[1, 2, 3]" hexDigest 0] c d
    by simp
qed

section \<open>Push, pull and sync in closed form\<close>

text \<open>
  The result and the final world of every path through the three operations. The later
  sections read the claims off these equations.
\<close>

lemma pushToCloud_ok:
  assumes "dbFile w = Some f"
  shows "pushToCloud H w =
    (Inr \<lparr>success = True, type = push, timestamp = clock w (Suc (Suc (ticks w))),
          localChecksum = H (content f), cloudChecksum = H (content f),
          bytesTransferred = length (content f),
          duration = clock w (Suc (Suc (Suc (ticks w)))) - clock w (ticks w), error = None\<rparr>,
     w\<lparr>dbOpen := False,
       files := (files w)(''current.db'' \<mapsto> content f),
       metadata := Some \<lparr>dbName = ''current'',
                          SyncMetadata.lastSyncTimestamp = clock w (Suc (ticks w)),
                          lastSyncType = push,
                          SyncMetadata.checksum = H (content f),
                          version = 1\<rparr>,
       metadataFile := Some \<lparr>lastSyncTimestamp = clock w (Suc (ticks w)),
                              lastSyncChecksum = H (content f)\<rparr>,
       calls := calls w @ [UploadFile ''current.db'' (content f),
                           UpdateMetadata \<lparr>dbName = ''current'',
                          SyncMetadata.lastSyncTimestamp = clock w (Suc (ticks w)),
                          lastSyncType = push,
                          SyncMetadata.checksum = H (content f),
                          version = 1\<rparr>],
       ticks := Suc (Suc (Suc (Suc (ticks w))))\<rparr>)"
  using assms
  by (simp add: pushToCloud_def Date_now_def getBuffer_def close_eq calculateBufferChecksum_eq
      uploadFile_def updateMetadata_def updateLocalMetadata_def spread_def getLocalMetadata_def Let_def)

lemma pushToCloud_fail:
  assumes "dbFile w = None"
  shows "pushToCloud H w = (Inl (ErrnoException ''ENOENT''), w\<lparr>dbOpen := False, ticks := Suc (ticks w)\<rparr>)"
  using assms
  by (simp add: pushToCloud_def Date_now_def getBuffer_def close_eq Let_def)

lemma pullFromCloud_missing:
  assumes "files w ''current.db'' = None"
  shows "pullFromCloud H w =
    (Inl (Error ''No cloud version found''),
     w\<lparr>calls := calls w @ [FileExists ''current.db''], ticks := Suc (ticks w)\<rparr>)"
  using assms
  by (simp add: pullFromCloud_def Date_now_def fileExists_def Let_def)

lemma pullFromCloud_mismatch:
  assumes "files w ''current.db'' = Some b" and "metadata w = Some m"
    and "SyncMetadata.checksum m \<noteq> H b"
  shows "pullFromCloud H w =
    (Inl (Error ''Checksum mismatch - data corruption detected''),
     w\<lparr>calls := calls w @ [FileExists ''current.db'', DownloadFile ''current.db'',
                           GetMetadata ''current.db''],
       ticks := Suc (ticks w)\<rparr>)"
  using assms
  by (simp add: pullFromCloud_def Date_now_def fileExists_def downloadFile_def getMetadata_def
      calculateBufferChecksum_eq Let_def)

lemma pullFromCloud_ok:
  assumes "files w ''current.db'' = Some b"
    and "metadata w = None \<or> (\<exists>m. metadata w = Some m \<and> SyncMetadata.checksum m = H b)"
  shows "pullFromCloud H w =
    (Inr \<lparr>success = True, type = pull, timestamp = clock w (Suc (Suc (Suc (ticks w)))),
          localChecksum = H b, cloudChecksum = H b,
          bytesTransferred = length b,
          duration = clock w (Suc (Suc (Suc (Suc (ticks w))))) - clock w (ticks w),
          error = None\<rparr>,
     w\<lparr>dbOpen := False,
       dbFile := Some \<lparr>content = b, mtimeMs = clock w (Suc (ticks w))\<rparr>,
       tmpFile := None,
       metadataFile := Some \<lparr>lastSyncTimestamp = clock w (Suc (Suc (ticks w))),
                              lastSyncChecksum = H b\<rparr>,
       calls := calls w @ [FileExists ''current.db'', DownloadFile ''current.db'',
                           GetMetadata ''current.db''],
       ticks := Suc (Suc (Suc (Suc (Suc (ticks w)))))\<rparr>)"
  using assms
  by (auto simp add: pullFromCloud_def Date_now_def fileExists_def downloadFile_def
      getMetadata_def calculateBufferChecksum_eq replaceWithBuffer_def close_eq
      updateLocalMetadata_def spread_def getLocalMetadata_def Let_def)

lemmas sync_unfold = sync_def Date_now_def fileExists_def getMetadata_def getChecksum_eq
  getModifiedTime_def Let_def

lemma sync_no_blob:
  assumes "files w ''current.db'' = None"
  shows "sync H w =
    pushToCloud H (w\<lparr>ticks := Suc (ticks w), calls := calls w @ [FileExists ''current.db'']\<rparr>)"
  using assms by (simp add: sync_unfold)

lemma sync_local_missing:
  assumes "files w ''current.db'' = Some b" and "dbFile w = None"
  shows "sync H w =
    (Inl (ErrnoException ''ENOENT''),
     w\<lparr>dbOpen := False, calls := calls w @ [FileExists ''current.db''],
       ticks := Suc (ticks w)\<rparr>)"
  using assms by (simp add: sync_unfold)

lemma sync_no_record:
  assumes "files w ''current.db'' = Some b" and "dbFile w = Some f" and "metadata w = None"
  shows "sync H w =
    pushToCloud H (w\<lparr>ticks := Suc (ticks w), dbOpen := False,
                     calls := calls w @ [FileExists ''current.db'', GetMetadata ''current.db'']\<rparr>)"
  using assms by (simp add: sync_unfold)

lemma sync_equal:
  assumes "files w ''current.db'' = Some b" and "dbFile w = Some f" and "metadata w = Some m"
    and "H (content f) = SyncMetadata.checksum m"
  shows "sync H w =
    (Inr \<lparr>success = True, type = bidirectional, timestamp = clock w (Suc (ticks w)),
          localChecksum = H (content f), cloudChecksum = SyncMetadata.checksum m,
          bytesTransferred = 0,
          duration = clock w (Suc (Suc (ticks w))) - clock w (ticks w), error = None\<rparr>,
     w\<lparr>dbOpen := False,
       calls := calls w @ [FileExists ''current.db'', GetMetadata ''current.db''],
       ticks := Suc (Suc (Suc (ticks w)))\<rparr>)"
  using assms by (simp add: sync_unfold)

lemma sync_differ:
  assumes "files w ''current.db'' = Some b" and "dbFile w = Some f" and "metadata w = Some m"
    and "H (content f) \<noteq> SyncMetadata.checksum m"
  shows "sync H w =
    (if mtimeMs f > SyncMetadata.lastSyncTimestamp m then pushToCloud H else pullFromCloud H)
      (w\<lparr>ticks := Suc (ticks w), dbOpen := False,
         calls := calls w @ [FileExists ''current.db'', GetMetadata ''current.db'']\<rparr>)"
  using assms by (simp add: sync_unfold)


lemma pushToCloud_inSync:
  assumes "pushToCloud H w = (Inr r, w')"
  shows "inSync H w'"
proof (cases "dbFile w")
  case None
  with assms show ?thesis by (simp add: pushToCloud_fail)
next
  case (Some f)
  from assms have "w' = snd (pushToCloud H w)" by simp
  then show ?thesis
    by (simp add: pushToCloud_ok [OF Some] inSync_def Some)
qed

lemma pullFromCloud_inSync:
  assumes "pullFromCloud H w = (Inr r, w')" and "metadata w = Some m"
  shows "inSync H w'"
proof (cases "files w ''current.db''")
  case None
  with assms show ?thesis by (simp add: pullFromCloud_missing)
next
  case (Some b)
  show ?thesis
  proof (cases "SyncMetadata.checksum m = H b")
    case True
    with assms(2) have ok: "metadata w = None \<or> (\<exists>m. metadata w = Some m \<and> SyncMetadata.checksum m = H b)"
      by simp
    from assms(1) have "w' = snd (pullFromCloud H w)" by simp
    then show ?thesis
      using True assms(2) Some by (simp add: pullFromCloud_ok [where H = H, OF Some ok] inSync_def)
  next
    case False
    with assms Some show ?thesis by (simp add: pullFromCloud_mismatch)
  qed
qed

lemma sync_inSync:
  assumes "sync H w = (Inr r, w')"
  shows "inSync H w'"
proof (cases "files w ''current.db''")
  case None
  with assms have "pushToCloud H (w\<lparr>ticks := Suc (ticks w),
      calls := calls w @ [FileExists ''current.db'']\<rparr>) = (Inr r, w')"
    by (simp add: sync_no_blob)
  then show ?thesis by (rule pushToCloud_inSync)
next
  case (Some b)
  show ?thesis
  proof (cases "dbFile w")
    case None
    with assms Some show ?thesis by (simp add: sync_local_missing)
  next
    case f: (Some f)
    show ?thesis
    proof (cases "metadata w")
      case None
      with assms Some f have "pushToCloud H (w\<lparr>ticks := Suc (ticks w), dbOpen := False,
          calls := calls w @ [FileExists ''current.db'', GetMetadata ''current.db'']\<rparr>) = (Inr r, w')"
        by (simp add: sync_no_record)
      then show ?thesis by (rule pushToCloud_inSync)
    next
      case m: (Some m)
      show ?thesis
      proof (cases "H (content f) = SyncMetadata.checksum m")
        case True
        from assms have "w' = snd (sync H w)" by simp
        then show ?thesis
          using Some f m True by (simp add: sync_equal [where H = H, OF Some f m True] inSync_def)
      next
        case False
        show ?thesis
        proof (cases "mtimeMs f > SyncMetadata.lastSyncTimestamp m")
          case True
          with assms have "pushToCloud H (w\<lparr>ticks := Suc (ticks w), dbOpen := False,
              calls := calls w @ [FileExists ''current.db'', GetMetadata ''current.db'']\<rparr>) = (Inr r, w')"
            by (simp add: sync_differ [where H = H, OF Some f m False])
          then show ?thesis by (rule pushToCloud_inSync)
        next
          case older: False
          with assms have "pullFromCloud H (w\<lparr>ticks := Suc (ticks w), dbOpen := False,
              calls := calls w @ [FileExists ''current.db'', GetMetadata ''current.db'']\<rparr>) = (Inr r, w')"
            by (simp add: sync_differ [where H = H, OF Some f m False])
          then show ?thesis by (rule pullFromCloud_inSync) (simp add: m)
        qed
      qed
    qed
  qed
qed

lemma sync_when_inSync:
  assumes "inSync H w"
  shows "\<exists>r w'. sync H w = (Inr r, w') \<and> type r = bidirectional \<and> bytesTransferred r = 0"
proof -
  from assms obtain b f m where *: "files w ''current.db'' = Some b" "dbFile w = Some f"
    "metadata w = Some m" "H (content f) = SyncMetadata.checksum m"
    by (auto simp: inSync_def split: option.splits)
  show ?thesis by (simp add: sync_equal [where H = H, OF *])
qed

lemma hexDigest_v1: "hexDigest v1 = ''7631''"
  by (simp add: hexDigest_def hexDigit_def v1_def)

lemma hexDigest_v2: "hexDigest v2 = ''7632''"
  by (simp add: hexDigest_def hexDigit_def v2_def)

lemmas engine_defs = pushToCloud_def pullFromCloud_def Date_now_def getBuffer_def close_def
  uploadFile_def downloadFile_def fileExists_def getMetadata_def updateMetadata_def
  updateLocalMetadata_def spread_def getLocalMetadata_def replaceWithBuffer_def
  calculateBufferChecksum_eq Let_def

section \<open>The decision of \<open>sync\<close>\<close>

text \<open>
  C1. For every state of the local file and the remote store, \<open>sync\<close> decides in this
  fixed order: if the remote blob \<^verbatim>\<open>current.db\<close> does not exist it performs
  \<open>pushToCloud\<close>; else if no remote record exists it performs \<open>pushToCloud\<close>; else if
  the local fingerprint equals the record's checksum it returns a result of type
  \<open>bidirectional\<close> with \<open>bytesTransferred = 0\<close> and transfers nothing (the world it leaves
  differs from the initial one only in the clock readings taken, the closed connection and
  the two read-only transport calls); otherwise it pushes exactly when the local file's
  modification time is strictly greater than the record's timestamp, and pulls when it is
  less or equal. The equation covers every state: where a remote blob exists and the local
  file is missing there is no local fingerprint, and \<open>sync\<close> fails with \<^verbatim>\<open>ENOENT\<close>, which
  is also how \<open>pushToCloud\<close> fails on a missing local file (\<open>pushToCloud_fail\<close>).
\<close>

theorem sync_decision:
  "sync H w =
     (if files w ''current.db'' = None
      then pushToCloud H
             (w\<lparr>ticks := Suc (ticks w), calls := calls w @ [FileExists ''current.db'']\<rparr>)
      else
        case dbFile w of
          None \<Rightarrow>
            (Inl (ErrnoException ''ENOENT''),
             w\<lparr>dbOpen := False, calls := calls w @ [FileExists ''current.db''],
               ticks := Suc (ticks w)\<rparr>)
        | Some f \<Rightarrow>
            (let compared =
                   w\<lparr>ticks := Suc (ticks w), dbOpen := False,
                     calls := calls w @ [FileExists ''current.db'', GetMetadata ''current.db'']\<rparr>
             in case metadata w of
                  None \<Rightarrow> pushToCloud H compared
                | Some m \<Rightarrow>
                    if calculateBufferChecksum H (content f) = SyncMetadata.checksum m
                    then
                      (Inr \<lparr>success = True, type = bidirectional,
                            timestamp = clock w (Suc (ticks w)),
                            localChecksum = calculateBufferChecksum H (content f),
                            cloudChecksum = SyncMetadata.checksum m,
                            bytesTransferred = 0,
                            duration = clock w (Suc (Suc (ticks w))) - clock w (ticks w),
                            error = None\<rparr>,
                       compared\<lparr>ticks := Suc (Suc (Suc (ticks w)))\<rparr>)
                    else if mtimeMs f > SyncMetadata.lastSyncTimestamp m
                    then pushToCloud H compared
                    else pullFromCloud H compared))"
proof (cases "files w ''current.db''")
  case None
  then show ?thesis by (simp add: sync_no_blob)
next
  case b: (Some b)
  show ?thesis
  proof (cases "dbFile w")
    case None
    with b show ?thesis by (simp add: sync_local_missing)
  next
    case f: (Some f)
    show ?thesis
    proof (cases "metadata w")
      case None
      with b f show ?thesis by (simp add: sync_no_record)
    next
      case m: (Some m)
      show ?thesis
      proof (cases "H (content f) = SyncMetadata.checksum m")
        case True
        with b f m show ?thesis
          by (simp add: sync_equal [where H = H, OF b f m True] calculateBufferChecksum_eq)
      next
        case False
        with b f m show ?thesis
          by (simp add: sync_differ [where H = H, OF b f m False] calculateBufferChecksum_eq)
      qed
    qed
  qed
qed

theorem sync_decision_witness:
  "(case sync hexDigest localOnly of
      (Inr r, w') \<Rightarrow> type r = push \<and> bytesTransferred r = 2
          \<and> map_option SyncMetadata.checksum (metadata w') = Some (hexDigest v1)
    | (Inl e, w') \<Rightarrow> False)
   \<and> (case sync hexDigest remoteNewer of
      (Inr r, w') \<Rightarrow> type r = pull \<and> map_option content (dbFile w') = Some v2
    | (Inl e, w') \<Rightarrow> False)"
  using sync_decision [of hexDigest localOnly] sync_decision [of hexDigest remoteNewer]
  by (simp add: localOnly_def remoteNewer_def hexDigest_def hexDigit_def engine_defs v1_def v2_def)

section \<open>Push and the round trip\<close>

text \<open>
  C3. For every local file content \<open>B\<close>, \<open>pushToCloud\<close> succeeds, uploads \<open>B\<close> under the
  name \<^verbatim>\<open>current.db\<close>, persists a remote record with type \<open>push\<close>, checksum the
  fingerprint of \<open>B\<close> and timestamp the clock reading taken when the record is built (the
  second reading of the call), merge-updates the local record with that same timestamp and
  fingerprint, and returns a result of type \<open>push\<close> with \<open>bytesTransferred\<close> the length of
  \<open>B\<close> and \<open>localChecksum\<close> equal to \<open>cloudChecksum\<close>.
\<close>

theorem push_effect:
  assumes "dbFile w = Some f" and "content f = B"
  shows "\<exists>r w'. pushToCloud H w = (Inr r, w')
      \<and> files w' ''current.db'' = Some B
      \<and> metadata w' = Some \<lparr>dbName = ''current'',
                               SyncMetadata.lastSyncTimestamp = clock w (Suc (ticks w)),
                               lastSyncType = push,
                               SyncMetadata.checksum = calculateBufferChecksum H B,
                               version = 1\<rparr>
      \<and> metadataFile w' =
          metadataFile
            (updateLocalMetadata
               \<lparr>lastSyncTimestamp_opt = Some (clock w (Suc (ticks w))),
                lastSyncChecksum_opt = Some (calculateBufferChecksum H B)\<rparr> w)
      \<and> success r \<and> type r = push \<and> bytesTransferred r = length B
      \<and> localChecksum r = cloudChecksum r"
  using assms(2)
  by (simp add: pushToCloud_ok [where H = H, OF assms(1)] calculateBufferChecksum_eq
      updateLocalMetadata_def spread_def Let_def)

theorem push_effect_witness:
  "dbFile localOnly = Some \<lparr>content = v1, mtimeMs = 100\<rparr>
   \<and> (\<exists>r w'. pushToCloud hexDigest localOnly = (Inr r, w')
      \<and> files w' ''current.db'' = Some v1
      \<and> metadata w' = Some \<lparr>dbName = ''current'',
                               SyncMetadata.lastSyncTimestamp = 1001,
                               lastSyncType = push,
                               SyncMetadata.checksum = ''7631'',
                               version = 1\<rparr>
      \<and> metadataFile w' = Some \<lparr>lastSyncTimestamp = 1001, lastSyncChecksum = ''7631''\<rparr>
      \<and> success r \<and> type r = push \<and> bytesTransferred r = 2
      \<and> localChecksum r = cloudChecksum r)"
proof -
  have f: "dbFile localOnly = Some \<lparr>content = v1, mtimeMs = 100\<rparr>"
    by (simp add: localOnly_def)
  have c: "content \<lparr>content = v1, mtimeMs = 100\<rparr> = v1" by simp
  have d: "calculateBufferChecksum hexDigest v1 = ''7631''"
    by (simp add: calculateBufferChecksum_eq hexDigest_v1)
  have l: "length v1 = 2" by (simp add: v1_def)
  have t: "clock localOnly (Suc (ticks localOnly)) = 1001" by (simp add: localOnly_def)
  have u: "metadataFile (updateLocalMetadata
               \<lparr>lastSyncTimestamp_opt = Some 1001, lastSyncChecksum_opt = Some ''7631''\<rparr>
               localOnly) = Some \<lparr>lastSyncTimestamp = 1001, lastSyncChecksum = ''7631''\<rparr>"
    by (simp add: updateLocalMetadata_def spread_def Let_def)
  from push_effect [OF f c, of hexDigest] show ?thesis
    unfolding d l t u using f by simp
qed

text \<open>
  C4. For every local content \<open>C\<close>, \<open>pushToCloud\<close> followed by \<open>pullFromCloud\<close> with
  nothing modified in between succeeds and leaves the local file byte-identical to \<open>C\<close>.
  The in-memory transport returns what was last written, which is the read-after-write
  consistency the claim asks of the transport. The last conjunct is the same for a pull from
  any other local state (a fresh local file) against the remote state the push left.
\<close>

theorem push_pull_roundtrip:
  assumes "dbFile w = Some f" and "content f = C"
  shows "\<exists>r1 w1. pushToCloud H w = (Inr r1, w1)
      \<and> (\<exists>r2 w2. pullFromCloud H w1 = (Inr r2, w2) \<and> map_option content (dbFile w2) = Some C)
      \<and> (\<forall>v. files v = files w1 \<and> metadata v = metadata w1 \<longrightarrow>
            (\<exists>r2 w2. pullFromCloud H v = (Inr r2, w2)
               \<and> map_option content (dbFile w2) = Some C))"
proof -
  obtain r1 w1 where p: "pushToCloud H w = (Inr r1, w1)"
    by (simp add: pushToCloud_ok [where H = H, OF assms(1)])
  from p have w1: "w1 = snd (pushToCloud H w)" by simp
  have blob: "files w1 ''current.db'' = Some C"
    using assms(2) by (simp add: w1 pushToCloud_ok [where H = H, OF assms(1)])
  have rec: "\<exists>m. metadata w1 = Some m \<and> SyncMetadata.checksum m = H C"
    using assms(2) by (simp add: w1 pushToCloud_ok [where H = H, OF assms(1)])
  have pull: "\<exists>r2 w2. pullFromCloud H v = (Inr r2, w2) \<and> map_option content (dbFile w2) = Some C"
    if "files v = files w1" and "metadata v = metadata w1" for v
  proof -
    from that blob have b: "files v ''current.db'' = Some C" by simp
    from that rec have "metadata v = None \<or> (\<exists>m. metadata v = Some m \<and> SyncMetadata.checksum m = H C)"
      by simp
    from pullFromCloud_ok [where H = H, OF b this] show ?thesis by simp
  qed
  from p pull show ?thesis by blast
qed

theorem push_pull_roundtrip_witness:
  "dbFile localOnly = Some \<lparr>content = v1, mtimeMs = 100\<rparr>
   \<and> (\<exists>r1 w1 r2 w2. pushToCloud hexDigest localOnly = (Inr r1, w1)
         \<and> pullFromCloud hexDigest w1 = (Inr r2, w2)
         \<and> map_option content (dbFile w2) = Some v1)"
proof -
  have f: "dbFile localOnly = Some \<lparr>content = v1, mtimeMs = 100\<rparr>"
    by (simp add: localOnly_def)
  have c: "content \<lparr>content = v1, mtimeMs = 100\<rparr> = v1" by simp
  from push_pull_roundtrip [OF f c, of hexDigest] f show ?thesis by blast
qed

section \<open>Calling \<open>sync\<close> twice\<close>

text \<open>
  C5, as stated: for every initial state, the second of two successive calls of \<open>sync\<close>
  returns a result of type \<open>bidirectional\<close> with \<open>bytesTransferred = 0\<close>. This fails where
  the first call fails: in \<open>remoteCorrupt\<close> the record's checksum is not the digest of the
  remote blob and the record is not older than the local file, so the first call pulls,
  throws the checksum mismatch and leaves the files and the remote store as they were; the
  second call throws it again.
\<close>

theorem sync_twice_counterexample:
  "fst (sync hexDigest remoteCorrupt) = Inl (Error ''Checksum mismatch - data corruption detected'')
   \<and> fst (sync hexDigest (snd (sync hexDigest remoteCorrupt)))
       = Inl (Error ''Checksum mismatch - data corruption detected'')"
  by (simp add: remoteCorrupt_def localOnly_def sync_unfold engine_defs hexDigest_def hexDigit_def
      v1_def v2_def)

text \<open>
  C5, amended: for every initial state in which the first call of \<open>sync\<close> returns a
  result, a second call on the state the first one left (nothing modified in between)
  returns a result of type \<open>bidirectional\<close> with \<open>bytesTransferred = 0\<close>.
\<close>

theorem sync_twice:
  assumes "sync H w = (Inr r1, w1)"
  shows "\<exists>r2 w2. sync H w1 = (Inr r2, w2) \<and> type r2 = bidirectional \<and> bytesTransferred r2 = 0"
  using assms by (intro sync_when_inSync sync_inSync)

theorem sync_twice_witness:
  "\<exists>r1 w1 r2 w2. sync hexDigest remoteNewer = (Inr r1, w1) \<and> type r1 = pull
      \<and> sync hexDigest w1 = (Inr r2, w2) \<and> type r2 = bidirectional \<and> bytesTransferred r2 = 0"
proof -
  obtain r1 w1 where s: "sync hexDigest remoteNewer = (Inr r1, w1)" and t: "type r1 = pull"
    by (simp add: remoteNewer_def localOnly_def sync_unfold engine_defs hexDigest_def hexDigit_def
      v1_def v2_def)
  from sync_twice [OF s] s t show ?thesis by blast
qed

section \<open>Case analyses and the success flag\<close>

lemma pushToCloud_success:
  assumes "pushToCloud H w = (Inr r, w')"
  shows "success r \<and> error r = None"
proof (cases "dbFile w")
  case None
  with assms show ?thesis by (simp add: pushToCloud_fail)
next
  case (Some f)
  from assms have "r = projr (fst (pushToCloud H w))" by simp
  then show ?thesis by (simp add: pushToCloud_ok [where H = H, OF Some])
qed

lemma pullFromCloud_cases:
  fixes w :: world and H :: "buffer \<Rightarrow> string"
  obtains (missing) "files w ''current.db'' = None"
  | (mismatch) b m where "files w ''current.db'' = Some b" "metadata w = Some m"
      "SyncMetadata.checksum m \<noteq> H b"
  | (ok) b where "files w ''current.db'' = Some b"
      "metadata w = None \<or> (\<exists>m. metadata w = Some m \<and> SyncMetadata.checksum m = H b)"
  by (cases "files w ''current.db''"; cases "metadata w") auto

lemma pullFromCloud_success:
  assumes "pullFromCloud H w = (Inr r, w')"
  shows "success r \<and> error r = None"
proof (cases rule: pullFromCloud_cases [where w = w and H = H])
  case missing
  with assms show ?thesis by (simp add: pullFromCloud_missing)
next
  case (mismatch b m)
  with assms show ?thesis by (simp add: pullFromCloud_mismatch [where H = H])
next
  case (ok b)
  from assms have "r = projr (fst (pullFromCloud H w))" by simp
  then show ?thesis by (simp add: pullFromCloud_ok [where H = H, OF ok])
qed

lemma sync_cases:
  fixes w :: world and H :: "buffer \<Rightarrow> string"
  obtains (no_blob) "files w ''current.db'' = None"
  | (local_missing) b where "files w ''current.db'' = Some b" "dbFile w = None"
  | (no_record) b f where "files w ''current.db'' = Some b" "dbFile w = Some f"
      "metadata w = None"
  | (equal) b f m where "files w ''current.db'' = Some b" "dbFile w = Some f"
      "metadata w = Some m" "H (content f) = SyncMetadata.checksum m"
  | (differ) b f m where "files w ''current.db'' = Some b" "dbFile w = Some f"
      "metadata w = Some m" "H (content f) \<noteq> SyncMetadata.checksum m"
  by (cases "files w ''current.db''"; cases "dbFile w"; cases "metadata w") blast+

lemma sync_success:
  assumes "sync H w = (Inr r, w')"
  shows "success r \<and> error r = None"
proof (cases rule: sync_cases [where w = w and H = H])
  case no_blob
  with assms show ?thesis by (auto simp: sync_no_blob dest: pushToCloud_success)
next
  case (local_missing b)
  with assms show ?thesis by (simp add: sync_local_missing)
next
  case (no_record b f)
  with assms show ?thesis by (auto simp: sync_no_record dest: pushToCloud_success)
next
  case (equal b f m)
  from assms have "r = projr (fst (sync H w))" by simp
  then show ?thesis by (simp add: sync_equal [where H = H, OF equal])
next
  case (differ b f m)
  with assms show ?thesis
    by (auto simp: sync_differ [where H = H, OF differ] split: if_splits
        dest: pushToCloud_success pullFromCloud_success)
qed

section \<open>Pull\<close>

text \<open>
  C2, as stated: where the remote record's checksum differs from the digest of the downloaded
  blob, \<open>pullFromCloud\<close> fails with an \<^verbatim>\<open>IntegrityError\<close> whose message is
  \<^verbatim>\<open>checksum mismatch\<close>, a dash (U+2014, three bytes in UTF-8), \<^verbatim>\<open>data corruption detected\<close>.
  The code has no error classes: it throws a plain \<^verbatim>\<open>Error\<close>, and the message begins
  with a capital letter and has a hyphen.
\<close>

theorem pull_mismatch_counterexample:
  "fst (pullFromCloud hexDigest remoteCorrupt)
     = Inl (Error ''Checksum mismatch - data corruption detected'')
   \<and> fst (pullFromCloud hexDigest remoteCorrupt)
     \<noteq> Inl (Error (''checksum mismatch '' @ [CHR 0xE2, CHR 0x80, CHR 0x94]
                      @ '' data corruption detected''))"
  by (simp add: remoteCorrupt_def localOnly_def engine_defs hexDigest_def hexDigit_def v2_def)

text \<open>
  C2, amended: for every remote state in which the blob \<^verbatim>\<open>current.db\<close> exists and a remote
  record is present whose checksum differs from the digest freshly computed over the
  downloaded bytes, \<open>pullFromCloud\<close> fails with the \<^verbatim>\<open>Error\<close> whose message is
  \<^verbatim>\<open>Checksum mismatch - data corruption detected\<close>, and the local file, the temporary file
  and the local record are as before; if no remote record is present, verification is
  skipped and the pull succeeds.
\<close>

theorem pull_mismatch:
  "(files w ''current.db'' = Some b \<and> metadata w = Some m
      \<and> SyncMetadata.checksum m \<noteq> calculateBufferChecksum H b \<longrightarrow>
      (\<exists>w'. pullFromCloud H w
               = (Inl (Error ''Checksum mismatch - data corruption detected''), w')
          \<and> dbFile w' = dbFile w \<and> tmpFile w' = tmpFile w
          \<and> metadataFile w' = metadataFile w))
   \<and> (files w ''current.db'' = Some b \<and> metadata w = None \<longrightarrow>
      (\<exists>r w'. pullFromCloud H w = (Inr r, w') \<and> type r = pull
          \<and> map_option content (dbFile w') = Some b))"
proof (intro conjI impI)
  assume a: "files w ''current.db'' = Some b \<and> metadata w = Some m
      \<and> SyncMetadata.checksum m \<noteq> calculateBufferChecksum H b"
  then have "SyncMetadata.checksum m \<noteq> H b" by (simp add: calculateBufferChecksum_eq)
  with a show "\<exists>w'. pullFromCloud H w
               = (Inl (Error ''Checksum mismatch - data corruption detected''), w')
          \<and> dbFile w' = dbFile w \<and> tmpFile w' = tmpFile w
          \<and> metadataFile w' = metadataFile w"
    by (simp add: pullFromCloud_mismatch [where H = H and b = b and m = m])
next
  assume a: "files w ''current.db'' = Some b \<and> metadata w = None"
  then have "metadata w = None \<or> (\<exists>m. metadata w = Some m \<and> SyncMetadata.checksum m = H b)"
    by simp
  with a show "\<exists>r w'. pullFromCloud H w = (Inr r, w') \<and> type r = pull
          \<and> map_option content (dbFile w') = Some b"
    by (simp add: pullFromCloud_ok [where H = H and b = b])
qed

theorem pull_mismatch_witness:
  "(\<exists>w'. pullFromCloud hexDigest remoteCorrupt
            = (Inl (Error ''Checksum mismatch - data corruption detected''), w')
       \<and> dbFile w' = dbFile remoteCorrupt \<and> tmpFile w' = tmpFile remoteCorrupt
       \<and> metadataFile w' = metadataFile remoteCorrupt)
   \<and> (\<exists>r w'. pullFromCloud hexDigest (remoteCorrupt\<lparr>metadata := None\<rparr>) = (Inr r, w')
       \<and> type r = pull \<and> map_option content (dbFile w') = Some v2)"
proof -
  have 1: "files remoteCorrupt ''current.db'' = Some v2
      \<and> metadata remoteCorrupt
          = Some \<lparr>dbName = ''current'', SyncMetadata.lastSyncTimestamp = 200,
                  lastSyncType = push, SyncMetadata.checksum = ''bad'', version = 1\<rparr>
      \<and> SyncMetadata.checksum
            \<lparr>dbName = ''current'', SyncMetadata.lastSyncTimestamp = 200,
             lastSyncType = push, SyncMetadata.checksum = ''bad'', version = 1\<rparr>
          \<noteq> calculateBufferChecksum hexDigest v2"
    by (simp add: remoteCorrupt_def calculateBufferChecksum_eq hexDigest_v2)
  have 2: "files (remoteCorrupt\<lparr>metadata := None\<rparr>) ''current.db'' = Some v2
      \<and> metadata (remoteCorrupt\<lparr>metadata := None\<rparr>) = None"
    by (simp add: remoteCorrupt_def)
  from pull_mismatch [of remoteCorrupt v2 _ hexDigest] 1
    pull_mismatch [of "remoteCorrupt\<lparr>metadata := None\<rparr>" v2 _ hexDigest] 2
  show ?thesis by blast
qed

text \<open>
  C6, as stated: where the remote blob does not exist, \<open>pullFromCloud\<close> fails with a
  \<^verbatim>\<open>NotFoundError\<close> carrying the message \<^verbatim>\<open>no remote version found\<close>. The code throws a
  plain \<^verbatim>\<open>Error\<close> with another message.
\<close>

theorem pull_missing_counterexample:
  "fst (pullFromCloud hexDigest localOnly) = Inl (Error ''No cloud version found'')
   \<and> fst (pullFromCloud hexDigest localOnly) \<noteq> Inl (Error ''no remote version found'')"
  by (simp add: localOnly_def engine_defs)

text \<open>
  C6, amended: for every state in which the remote blob \<^verbatim>\<open>current.db\<close> does not exist,
  \<open>pullFromCloud\<close> fails with the \<^verbatim>\<open>Error\<close> whose message is \<^verbatim>\<open>No cloud version found\<close>;
  its only transport call is the existence probe (no download), and the local file, the
  local record and the remote store are as before.
\<close>

theorem pull_missing:
  assumes "files w ''current.db'' = None"
  shows "\<exists>w'. pullFromCloud H w = (Inl (Error ''No cloud version found''), w')
      \<and> calls w' = calls w @ [FileExists ''current.db'']
      \<and> dbFile w' = dbFile w \<and> tmpFile w' = tmpFile w \<and> metadataFile w' = metadataFile w
      \<and> files w' = files w \<and> metadata w' = metadata w"
  by (simp add: pullFromCloud_missing [OF assms])

theorem pull_missing_witness:
  "files localOnly ''current.db'' = None
   \<and> (\<exists>w'. pullFromCloud hexDigest localOnly = (Inl (Error ''No cloud version found''), w')
      \<and> calls w' = [FileExists ''current.db'']
      \<and> map_option content (dbFile w') = Some v1 \<and> metadataFile w' = None)"
proof -
  have n: "files localOnly ''current.db'' = None" by (simp add: localOnly_def)
  have l: "calls localOnly = [] \<and> dbFile localOnly = Some \<lparr>content = v1, mtimeMs = 100\<rparr>
      \<and> metadataFile localOnly = None"
    by (simp add: localOnly_def)
  from pull_missing [OF n, of hexDigest] n l show ?thesis by auto
qed

text \<open>
  C10. \<open>pullFromCloud\<close> never modifies remote state: whether it succeeds or fails, the
  remote blobs and the remote record are afterwards what they were, and the transport calls
  it has added are all among \<^verbatim>\<open>fileExists\<close>, \<^verbatim>\<open>downloadFile\<close> and \<^verbatim>\<open>getMetadata\<close>.
\<close>

theorem pull_leaves_remote:
  "files (snd (pullFromCloud H w)) = files w
   \<and> metadata (snd (pullFromCloud H w)) = metadata w
   \<and> (\<exists>cs. calls (snd (pullFromCloud H w)) = calls w @ cs \<and> (\<forall>c \<in> set cs. readOnly c))"
proof (cases rule: pullFromCloud_cases [where w = w and H = H])
  case missing
  then show ?thesis by (simp add: pullFromCloud_missing)
next
  case (mismatch b m)
  then show ?thesis by (simp add: pullFromCloud_mismatch [where H = H])
next
  case (ok b)
  then show ?thesis by (simp add: pullFromCloud_ok [where H = H, OF ok])
qed

theorem pull_leaves_remote_witness:
  "files (snd (pullFromCloud hexDigest remoteNewer)) = [''current.db'' \<mapsto> v2]
   \<and> map_option SyncMetadata.checksum (metadata (snd (pullFromCloud hexDigest remoteNewer)))
       = Some ''7632''
   \<and> calls (snd (pullFromCloud hexDigest remoteNewer))
       = [FileExists ''current.db'', DownloadFile ''current.db'', GetMetadata ''current.db'']
   \<and> list_all readOnly (calls (snd (pullFromCloud hexDigest remoteNewer)))
   \<and> files (snd (pullFromCloud hexDigest remoteCorrupt)) = files remoteCorrupt
   \<and> metadata (snd (pullFromCloud hexDigest remoteCorrupt)) = metadata remoteCorrupt"
proof -
  have c: "calls (snd (pullFromCloud hexDigest remoteNewer))
       = [FileExists ''current.db'', DownloadFile ''current.db'', GetMetadata ''current.db'']"
    by (simp add: remoteNewer_def localOnly_def engine_defs hexDigest_def hexDigit_def v2_def)
  have r: "files remoteNewer = [''current.db'' \<mapsto> v2]
      \<and> map_option SyncMetadata.checksum (metadata remoteNewer) = Some ''7632''"
    by (simp add: remoteNewer_def)
  from pull_leaves_remote [of hexDigest remoteNewer] pull_leaves_remote [of hexDigest remoteCorrupt]
    c r show ?thesis by simp
qed

section \<open>The local record\<close>

text \<open>
  C8. For every persisted local record \<open>R\<close> and every partial update \<open>P\<close>,
  \<open>updateLocalMetadata P\<close> persists a record whose fields present in \<open>P\<close> have the values
  of \<open>P\<close> and whose fields absent from \<open>P\<close> have the values of \<open>R\<close>; reading the record back
  gives that record, and nothing but the metadata file changes.
\<close>

theorem updateLocalMetadata_merge:
  assumes "metadataFile w = Some R"
  shows "\<exists>R'. metadataFile (updateLocalMetadata P w) = Some R'
      \<and> getLocalMetadata (updateLocalMetadata P w) = R'
      \<and> (\<forall>t. lastSyncTimestamp_opt P = Some t \<longrightarrow> lastSyncTimestamp R' = t)
      \<and> (lastSyncTimestamp_opt P = None \<longrightarrow> lastSyncTimestamp R' = lastSyncTimestamp R)
      \<and> (\<forall>c. lastSyncChecksum_opt P = Some c \<longrightarrow> lastSyncChecksum R' = c)
      \<and> (lastSyncChecksum_opt P = None \<longrightarrow> lastSyncChecksum R' = lastSyncChecksum R)
      \<and> (updateLocalMetadata P w)\<lparr>metadataFile := metadataFile w\<rparr> = w"
  using assms
  by (simp add: updateLocalMetadata_def getLocalMetadata_def spread_def Let_def)

theorem updateLocalMetadata_merge_witness:
  "metadataFile (localOnly\<lparr>metadataFile :=
        Some \<lparr>lastSyncTimestamp = 1000, lastSyncChecksum = ''checksum-1''\<rparr>\<rparr>)
     = Some \<lparr>lastSyncTimestamp = 1000, lastSyncChecksum = ''checksum-1''\<rparr>
   \<and> getLocalMetadata
        (updateLocalMetadata
           \<lparr>lastSyncTimestamp_opt = None, lastSyncChecksum_opt = Some ''checksum-2''\<rparr>
           (localOnly\<lparr>metadataFile :=
              Some \<lparr>lastSyncTimestamp = 1000, lastSyncChecksum = ''checksum-1''\<rparr>\<rparr>))
     = \<lparr>lastSyncTimestamp = 1000, lastSyncChecksum = ''checksum-2''\<rparr>"
proof -
  have p: "metadataFile (localOnly\<lparr>metadataFile :=
        Some \<lparr>lastSyncTimestamp = 1000, lastSyncChecksum = ''checksum-1''\<rparr>\<rparr>)
     = Some \<lparr>lastSyncTimestamp = 1000, lastSyncChecksum = ''checksum-1''\<rparr>"
    by simp
  from updateLocalMetadata_merge [OF p,
      of "\<lparr>lastSyncTimestamp_opt = None, lastSyncChecksum_opt = Some ''checksum-2''\<rparr>"]
  obtain R' where "getLocalMetadata
        (updateLocalMetadata
           \<lparr>lastSyncTimestamp_opt = None, lastSyncChecksum_opt = Some ''checksum-2''\<rparr>
           (localOnly\<lparr>metadataFile :=
              Some \<lparr>lastSyncTimestamp = 1000, lastSyncChecksum = ''checksum-1''\<rparr>\<rparr>)) = R'"
    and "lastSyncTimestamp R' = 1000" and "lastSyncChecksum R' = ''checksum-2''"
    by auto
  with p show ?thesis by simp
qed

section \<open>Results and failures\<close>

text \<open>
  C9. Every \<open>SyncResult\<close> that \<open>pushToCloud\<close>, \<open>pullFromCloud\<close> or \<open>sync\<close> returns has
  \<open>success = True\<close> and no \<open>error\<close>; an operation that fails ends in the thrown error and
  returns no \<open>SyncResult\<close>.
\<close>

theorem results_report_success:
  "(pushToCloud H w = (Inr r, w') \<longrightarrow> success r \<and> error r = None)
   \<and> (pullFromCloud H w = (Inr r, w') \<longrightarrow> success r \<and> error r = None)
   \<and> (sync H w = (Inr r, w') \<longrightarrow> success r \<and> error r = None)
   \<and> (\<forall>e. fst (pushToCloud H w) = Inl e \<longrightarrow> (\<nexists>r. fst (pushToCloud H w) = Inr r))
   \<and> (\<forall>e. fst (pullFromCloud H w) = Inl e \<longrightarrow> (\<nexists>r. fst (pullFromCloud H w) = Inr r))
   \<and> (\<forall>e. fst (sync H w) = Inl e \<longrightarrow> (\<nexists>r. fst (sync H w) = Inr r))"
  by (intro conjI impI allI pushToCloud_success pullFromCloud_success sync_success) auto

theorem results_report_success_witness:
  "(\<exists>r w'. pushToCloud hexDigest localOnly = (Inr r, w') \<and> success r \<and> error r = None)
   \<and> (\<exists>r w'. pullFromCloud hexDigest remoteNewer = (Inr r, w') \<and> success r \<and> error r = None)
   \<and> (\<exists>r w'. sync hexDigest remoteNewer = (Inr r, w') \<and> success r \<and> error r = None)
   \<and> fst (pullFromCloud hexDigest localOnly) = Inl (Error ''No cloud version found'')
   \<and> (\<nexists>r. fst (pullFromCloud hexDigest localOnly) = Inr r)"
proof -
  have "\<exists>r w'. pushToCloud hexDigest localOnly = (Inr r, w')"
    by (simp add: localOnly_def engine_defs)
  then obtain r1 w1 where 1: "pushToCloud hexDigest localOnly = (Inr r1, w1)" by blast
  have "\<exists>r w'. pullFromCloud hexDigest remoteNewer = (Inr r, w')"
    by (simp add: remoteNewer_def localOnly_def engine_defs hexDigest_def hexDigit_def v2_def)
  then obtain r2 w2 where 2: "pullFromCloud hexDigest remoteNewer = (Inr r2, w2)" by blast
  have "\<exists>r w'. sync hexDigest remoteNewer = (Inr r, w')"
    by (simp add: remoteNewer_def localOnly_def sync_unfold engine_defs hexDigest_def
        hexDigit_def v1_def v2_def)
  then obtain r3 w3 where 3: "sync hexDigest remoteNewer = (Inr r3, w3)" by blast
  have 4: "fst (pullFromCloud hexDigest localOnly) = Inl (Error ''No cloud version found'')"
    by (simp add: localOnly_def engine_defs)
  have a: "success r1 \<and> error r1 = None"
    using results_report_success [of hexDigest localOnly r1 w1] 1 by blast
  have b: "success r2 \<and> error r2 = None"
    using results_report_success [of hexDigest remoteNewer r2 w2] 2 by blast
  have c: "success r3 \<and> error r3 = None"
    using results_report_success [of hexDigest remoteNewer r3 w3] 3 by blast
  have d: "\<nexists>r. fst (pullFromCloud hexDigest localOnly) = Inr r"
    using results_report_success [of hexDigest localOnly] 4 by blast
  from 1 2 3 4 a b c d show ?thesis by blast
qed

end
